theory Spec2Isabelle
  imports Complex_Main "HOL-Library.Sublist"
begin

section \<open>Shared environment: timers\<close>

text \<open>
  Both stateful components schedule callbacks with \<^verbatim>\<open>setTimeout\<close> and cancel them with
  \<^verbatim>\<open>clearTimeout\<close>. The browser's timer table is modelled as a finite map from timer
  handles to the pending entry; a handle that is absent is not pending (it has fired, was
  cancelled, or never existed). Handles are handed out from a counter kept beside the
  table; it starts at 1, as timer handles are positive, so a handle that a ref holds is
  truthy and the source's test \<^verbatim>\<open>if (animationTimeoutRef.current)\<close> is the test that
  the ref holds a handle. \<^verbatim>\<open>Date.now()\<close> is an integer number of milliseconds. The
  delays of LanguageSelector are passed to \<^verbatim>\<open>setTimeout\<close> as they are, with no
  arithmetic on them; the delay that LanguageMorphingTitle computes is treated in its
  own section.
\<close>

type_synonym handle = nat

section \<open>LanguageSelector\<close>

text \<open>
  \<^verbatim>\<open>src/components/LanguageSelector/LanguageSelector.tsx\<close>. The component state is the four
  \<^verbatim>\<open>useState\<close> cells. The environment the component writes to is kept in the same
  record: the events dispatched on \<^verbatim>\<open>window\<close>, the \<^verbatim>\<open>i18nextLng\<close> entry of
  \<^verbatim>\<open>localStorage\<close>, the timer table, and what React remembers of the synchronisation
  effect (the dependency values of its last run and the timer its cleanup closure holds).
  An event handler reads the state of the latest render, so each operation is a function
  from the committed state to the next one. \<^verbatim>\<open>console.log\<close> output is not state and is
  left out here.
\<close>

record custom_event =
  event_type :: string
  previousLanguage :: string
  newLanguage :: string

datatype ls_callback = ShowSelector | ClearChanging

record ls_state =
  currentLang :: string
  isChangingLanguage :: bool
  lastChangeTime :: int
  isVisible :: bool
  dispatched :: "custom_event list"
  i18nextLng :: "string option"
  syncDeps :: "(string \<times> string) option"
  syncTimer :: "handle option"
  ls_timers :: "handle \<rightharpoonup> (real \<times> ls_callback)"
  ls_nextTimer :: handle

definition LANGUAGE_CHANGE_COOLDOWN :: int where
  "LANGUAGE_CHANGE_COOLDOWN = 3000"

text \<open>\<^verbatim>\<open>i18n.language?.startsWith('es') ? 'es' : 'en'\<close>\<close>

definition displayLang :: "string \<Rightarrow> string" where
  "displayLang language = (if prefix ''es'' language then ''es'' else ''en'')"

definition ls_setTimeout :: "ls_callback \<Rightarrow> real \<Rightarrow> ls_state \<Rightarrow> handle \<times> ls_state" where
  "ls_setTimeout cb delay s =
     (ls_nextTimer s,
      s\<lparr>ls_timers := (ls_timers s)(ls_nextTimer s \<mapsto> (delay, cb)),
        ls_nextTimer := Suc (ls_nextTimer s)\<rparr>)"

definition ls_clearTimeout :: "handle \<Rightarrow> ls_state \<Rightarrow> ls_state" where
  "ls_clearTimeout h s = s\<lparr>ls_timers := (ls_timers s)(h := None)\<rparr>"

text \<open>The initial values of the \<^verbatim>\<open>useState\<close> cells, before any effect has run.\<close>

definition ls_init :: "string \<Rightarrow> ls_state" where
  "ls_init language =
     \<lparr>currentLang = displayLang language,
      isChangingLanguage = False,
      lastChangeTime = 0,
      isVisible = False,
      dispatched = [],
      i18nextLng = None,
      syncDeps = None,
      syncTimer = None,
      ls_timers = Map.empty,
      ls_nextTimer = 1\<rparr>"

text \<open>The first effect (lines 88-94): show the control after \<^verbatim>\<open>initialDelay\<close>.\<close>

definition visibilityEffect :: "real \<Rightarrow> ls_state \<Rightarrow> ls_state" where
  "visibilityEffect initialDelay s = snd (ls_setTimeout ShowSelector initialDelay s)"

text \<open>
  The synchronisation effect (lines 97-113): its body, and the cleanup that React runs
  before the next run of the effect.
\<close>

definition syncEffect :: "string \<Rightarrow> ls_state \<Rightarrow> ls_state" where
  "syncEffect language s =
     (let lang = displayLang language;
          s1 = (if currentLang s \<noteq> lang then s\<lparr>currentLang := lang\<rparr> else s);
          (timer, s2) = ls_setTimeout ClearChanging 1000 s1;
          s3 = s2\<lparr>i18nextLng := Some language\<rparr>
      in s3\<lparr>syncTimer := Some timer\<rparr>)"

definition syncCleanup :: "ls_state \<Rightarrow> ls_state" where
  "syncCleanup s =
     (case syncTimer s of
        None \<Rightarrow> s
      | Some timer \<Rightarrow> (ls_clearTimeout timer s)\<lparr>syncTimer := None\<rparr>)"

text \<open>
  React's commit after a render in which \<^verbatim>\<open>i18n.language\<close> has the given value: the
  synchronisation effect has the dependency list \<^verbatim>\<open>[i18n.language, currentLang]\<close>, so it
  runs (cleanup of the previous run first) exactly when one of the two differs from the
  values of its last run, and at mount.
\<close>

definition ls_commit :: "string \<Rightarrow> ls_state \<Rightarrow> ls_state" where
  "ls_commit language s =
     (let deps = (language, currentLang s)
      in if syncDeps s = Some deps then s
         else (syncEffect language (syncCleanup s))\<lparr>syncDeps := Some deps\<rparr>)"

definition ls_mount :: "real \<Rightarrow> string \<Rightarrow> ls_state" where
  "ls_mount initialDelay language =
     ls_commit language (visibilityEffect initialDelay (ls_init language))"

text \<open>A timer of the table fires: it leaves the table and its callback runs.\<close>

definition ls_callback_run :: "ls_callback \<Rightarrow> ls_state \<Rightarrow> ls_state" where
  "ls_callback_run cb s =
     (case cb of
        ShowSelector \<Rightarrow> s\<lparr>isVisible := True\<rparr>
      | ClearChanging \<Rightarrow> s\<lparr>isChangingLanguage := False\<rparr>)"

definition ls_fire :: "handle \<Rightarrow> ls_state \<Rightarrow> ls_state" where
  "ls_fire h s =
     (case ls_timers s h of
        None \<Rightarrow> s
      | Some (delay, cb) \<Rightarrow> ls_callback_run cb (ls_clearTimeout h s))"

text \<open>\<^verbatim>\<open>toggleLanguage\<close> (lines 115-142), called with the value of \<^verbatim>\<open>Date.now()\<close>.\<close>

definition toggleLanguage :: "int \<Rightarrow> ls_state \<Rightarrow> ls_state" where
  "toggleLanguage now s =
     (if isChangingLanguage s \<or> now - lastChangeTime s < LANGUAGE_CHANGE_COOLDOWN then s
      else
        let previousLang = currentLang s;
            newLang = (if currentLang s = ''en'' then ''es'' else ''en'');
            s1 = s\<lparr>isChangingLanguage := True\<rparr>;
            s2 = s1\<lparr>lastChangeTime := now\<rparr>;
            event = \<lparr>event_type = ''initiateLanguageChange'',
                     previousLanguage = previousLang,
                     newLanguage = newLang\<rparr>;
            s3 = s2\<lparr>dispatched := dispatched s2 @ [event]\<rparr>
        in s3\<lparr>currentLang := newLang\<rparr>)"

text \<open>
  A run of the component: what happens to it after mount, in order. The events are
  those of the browser's event loop, each handled to completion: a commit of React, a
  click on the button, a timer firing. React re-renders after a handler that has set
  state, before the next event is delivered, so the handler of a click reads the state
  that the previous event left. Two calls of the handler from one and the same render
  are not events of a run.
\<close>

datatype ls_event = Commit string | Toggle int | Fire handle

fun ls_step :: "ls_state \<Rightarrow> ls_event \<Rightarrow> ls_state" where
  "ls_step s (Commit language) = ls_commit language s"
| "ls_step s (Toggle now) = toggleLanguage now s"
| "ls_step s (Fire h) = ls_fire h s"

definition ls_run :: "real \<Rightarrow> string \<Rightarrow> ls_event list \<Rightarrow> ls_state" where
  "ls_run initialDelay language evs = foldl ls_step (ls_mount initialDelay language) evs"

text \<open>
  The timers of the synchronisation effect that are pending: each is the one that the
  latest run of the effect holds, and has the delay of 1000 ms.
\<close>

definition clear_tracked :: "ls_state \<Rightarrow> bool" where
  "clear_tracked s =
     ({(h, delay). ls_timers s h = Some (delay, ClearChanging)}
        \<subseteq> set_option (syncTimer s) \<times> {1000})"

section \<open>LanguageMorphingTitle\<close>

text \<open>
  The component of \<^verbatim>\<open>src/unnamed/part_000\<close>. Its state is the two \<^verbatim>\<open>useState\<close> cells
  (\<^verbatim>\<open>shouldMorph\<close>, \<^verbatim>\<open>texts\<close>) and the five refs; the timer table of the environment is
  kept in the same record. The properties that the logic reads are \<^verbatim>\<open>translationKey\<close>,
  \<^verbatim>\<open>morphTime\<close> and \<^verbatim>\<open>cooldownTime\<close>. The translation function \<^verbatim>\<open>t\<close> of the i18n
  framework is a parameter: \<open>t key lng\<close> is the text of \<open>key\<close> in the locale \<open>lng\<close>;
  the call \<^verbatim>\<open>t(translationKey)\<close> without a locale resolves in the locale that is active
  when the call is made, which the caller of the model supplies.
\<close>

record 'n lmt_props =
  translationKey :: string
  morphTime :: 'n
  cooldownTime :: 'n

record 'n lmt_state =
  shouldMorph :: bool
  texts :: "string list"
  previousLanguageRef :: string
  animationTimeoutRef :: "handle option"
  initializedRef :: bool
  isChangingRef :: bool
  lastChangeTimeRef :: int
  timers :: "handle \<rightharpoonup> 'n"
  nextTimer :: handle

type_synonym translate = "string \<Rightarrow> string \<Rightarrow> string"

text \<open>
  The two numeric properties are JavaScript numbers, and the source computes the delay
  of the completion timer from them in double-precision arithmetic, which rounds and has
  values that are not numbers. The model does not fix that arithmetic: the type \<open>'n\<close> of
  numbers is a parameter, and so are the operations the source uses on it, namely
  addition, multiplication, \<^verbatim>\<open>Math.max\<close>, and the number that an integer literal
  denotes. What is proved holds for every choice of them, the arithmetic of doubles
  included. The reals with their exact operations are one choice; they agree with the
  source wherever its arithmetic is exact, as it is on the default properties.
\<close>

record 'n js_arith =
  js_add :: "'n \<Rightarrow> 'n \<Rightarrow> 'n"
  js_mul :: "'n \<Rightarrow> 'n \<Rightarrow> 'n"
  js_max :: "'n \<Rightarrow> 'n \<Rightarrow> 'n"
  js_num :: "int \<Rightarrow> 'n"

definition exact_arith :: "real js_arith" where
  "exact_arith = \<lparr>js_add = (+), js_mul = (*), js_max = max, js_num = real_of_int\<rparr>"

definition MIN_ANIMATION_DURATION :: int where
  "MIN_ANIMATION_DURATION = 2500"

text \<open>The defaults of the two numeric properties (lines 54-55), in exact arithmetic.\<close>

definition default_props :: "string \<Rightarrow> real lmt_props" where
  "default_props key = \<lparr>translationKey = key, morphTime = 1, cooldownTime = 0.25\<rparr>"

definition setTimeout :: "'n \<Rightarrow> 'n lmt_state \<Rightarrow> handle \<times> 'n lmt_state" where
  "setTimeout delay s =
     (nextTimer s,
      s\<lparr>timers := (timers s)(nextTimer s \<mapsto> delay), nextTimer := Suc (nextTimer s)\<rparr>)"

definition clearTimeout :: "handle \<Rightarrow> 'n lmt_state \<Rightarrow> 'n lmt_state" where
  "clearTimeout h s = s\<lparr>timers := (timers s)(h := None)\<rparr>"

text \<open>
  The cells and refs as the first render creates them (lines 64-72); \<^verbatim>\<open>texts\<close> starts
  as two empty strings.
\<close>

definition lmt_init :: "string \<Rightarrow> 'n lmt_state" where
  "lmt_init language =
     \<lparr>shouldMorph = False,
      texts = [[], []],
      previousLanguageRef = language,
      animationTimeoutRef = None,
      initializedRef = False,
      isChangingRef = False,
      lastChangeTimeRef = 0,
      timers = Map.empty,
      nextTimer = 1\<rparr>"

text \<open>The initialisation effect (lines 75-82).\<close>

definition initEffect ::
    "translate \<Rightarrow> 'n lmt_props \<Rightarrow> string \<Rightarrow> 'n lmt_state \<Rightarrow> 'n lmt_state" where
  "initEffect t p language s =
     (if \<not> initializedRef s then
        let currentText = t (translationKey p) language;
            s1 = s\<lparr>texts := [currentText, currentText]\<rparr>
        in s1\<lparr>initializedRef := True\<rparr>
      else s)"

text \<open>
  \<^verbatim>\<open>getTotalAnimationDuration\<close> (lines 85-89): the source's expression, operation by
  operation, in the arithmetic it is given.
\<close>

definition getTotalAnimationDuration :: "'n js_arith \<Rightarrow> 'n lmt_props \<Rightarrow> 'n" where
  "getTotalAnimationDuration ar p =
     (let calculatedDuration =
            js_add ar (js_mul ar (js_add ar (morphTime p) (cooldownTime p)) (js_num ar 1000))
              (js_num ar 500)
      in js_max ar calculatedDuration (js_num ar MIN_ANIMATION_DURATION))"

text \<open>
  The callback that the completion timer runs (lines 139-149), with the locale that is
  active when it runs.
\<close>

definition completion ::
    "translate \<Rightarrow> 'n lmt_props \<Rightarrow> string \<Rightarrow> 'n lmt_state \<Rightarrow> 'n lmt_state" where
  "completion t p language s =
     (let s1 = s\<lparr>shouldMorph := False\<rparr>;
          s2 = s1\<lparr>isChangingRef := False\<rparr>;
          s3 = s2\<lparr>animationTimeoutRef := None\<rparr>;
          finalText = t (translationKey p) language
      in s3\<lparr>texts := [finalText, finalText]\<rparr>)"

text \<open>
  The language-change effect (lines 92-158), run with the value of \<^verbatim>\<open>i18n.language\<close> of
  the render and the value of \<^verbatim>\<open>Date.now()\<close>. The test of line 106 guards a
  \<^verbatim>\<open>console.log\<close> only; the console output of the effect is \<open>languageEffect_console\<close>
  below. That test compares two whole numbers of milliseconds, the difference of two
  values of \<^verbatim>\<open>Date.now()\<close> and 2500, so it is a comparison of integers.
\<close>

definition languageEffect ::
    "'n js_arith \<Rightarrow> translate \<Rightarrow> 'n lmt_props \<Rightarrow> string \<Rightarrow> int \<Rightarrow> 'n lmt_state \<Rightarrow>
     'n lmt_state" where
  "languageEffect ar t p language now s =
     (if isChangingRef s then s
      else if previousLanguageRef s \<noteq> language then
        let s1 = s\<lparr>isChangingRef := True\<rparr>;
            s2 = s1\<lparr>lastChangeTimeRef := now\<rparr>;
            oldText = t (translationKey p) (previousLanguageRef s2);
            newText = t (translationKey p) language;
            s3 =
              (if oldText \<noteq> newText then
                 let s4 = s2\<lparr>texts := [oldText, newText]\<rparr>;
                     s5 = s4\<lparr>shouldMorph := True\<rparr>;
                     s6 = (case animationTimeoutRef s5 of
                             None \<Rightarrow> s5
                           | Some h \<Rightarrow> (clearTimeout h s5)\<lparr>animationTimeoutRef := None\<rparr>);
                     totalDuration = getTotalAnimationDuration ar p;
                     (h, s7) = setTimeout totalDuration s6
                 in s7\<lparr>animationTimeoutRef := Some h\<rparr>
               else s2\<lparr>isChangingRef := False\<rparr>)
        in s3\<lparr>previousLanguageRef := language\<rparr>
      else s)"



text \<open>A pending timer fires: it leaves the table and the completion callback runs.\<close>

definition timerFires ::
    "translate \<Rightarrow> 'n lmt_props \<Rightarrow> string \<Rightarrow> handle \<Rightarrow> 'n lmt_state \<Rightarrow> 'n lmt_state" where
  "timerFires t p language h s =
     (case timers s h of
        None \<Rightarrow> s
      | Some delay \<Rightarrow> completion t p language (clearTimeout h s))"

text \<open>The cleanup of the last effect, run when the component unmounts (lines 161-168).\<close>

definition unmount :: "'n lmt_state \<Rightarrow> 'n lmt_state" where
  "unmount s =
     (case animationTimeoutRef s of
        None \<Rightarrow> s
      | Some h \<Rightarrow> (clearTimeout h s)\<lparr>animationTimeoutRef := None\<rparr>)"

text \<open>
  The life of a mounted component: renders, after which the two effects run in source
  order, and timers firing. React runs an effect only when one of its dependencies has
  changed; a run here lets the language-change effect run after any render, which
  includes every run that React performs.
\<close>

datatype lmt_event = Render string int | TimerFires handle string

fun lmt_step ::
    "'n js_arith \<Rightarrow> translate \<Rightarrow> 'n lmt_props \<Rightarrow> 'n lmt_state \<Rightarrow> lmt_event \<Rightarrow> 'n lmt_state" where
  "lmt_step ar t p s (Render language now) =
     languageEffect ar t p language now (initEffect t p language s)"
| "lmt_step ar t p s (TimerFires h language) = timerFires t p language h s"

definition lmt_mount ::
    "'n js_arith \<Rightarrow> translate \<Rightarrow> 'n lmt_props \<Rightarrow> string \<Rightarrow> int \<Rightarrow> 'n lmt_state" where
  "lmt_mount ar t p language now =
     lmt_step ar t p (lmt_init language) (Render language now)"

definition lmt_run ::
    "'n js_arith \<Rightarrow> translate \<Rightarrow> 'n lmt_props \<Rightarrow> string \<Rightarrow> int \<Rightarrow> lmt_event list \<Rightarrow>
     'n lmt_state" where
  "lmt_run ar t p language now evs =
     foldl (lmt_step ar t p) (lmt_mount ar t p language now) evs"

text \<open>Timers that try to fire after the component has unmounted.\<close>

definition fire_all ::
    "translate \<Rightarrow> 'n lmt_props \<Rightarrow> (handle \<times> string) list \<Rightarrow> 'n lmt_state \<Rightarrow> 'n lmt_state" where
  "fire_all t p fs s = foldl (\<lambda>s (h, language). timerFires t p language h s) s fs"

text \<open>
  The link between the ref and the timer table: the pending timers are exactly the
  one the ref holds, if any.
\<close>

definition timer_tracked :: "'n lmt_state \<Rightarrow> bool" where
  "timer_tracked s = (dom (timers s) = set_option (animationTimeoutRef s))"


section \<open>A sample catalogue\<close>

text \<open>
  A small translation catalogue for concrete runs: the key \<^verbatim>\<open>hero.title\<close> reads
  \<^verbatim>\<open>Hola\<close> in every Spanish locale and \<^verbatim>\<open>Hello\<close> in any other; a key that the
  catalogue does not have resolves to itself.
\<close>

definition demo_t :: translate where
  "demo_t key lng =
     (if key = ''hero.title'' then (if prefix ''es'' lng then ''Hola'' else ''Hello'')
      else key)"

definition demo_props :: "real lmt_props" where
  "demo_props = default_props ''hero.title''"

section \<open>Properties of LanguageSelector\<close>

lemmas ls_defs =
  ls_run_def ls_mount_def ls_commit_def visibilityEffect_def ls_init_def syncEffect_def
  syncCleanup_def ls_setTimeout_def ls_clearTimeout_def toggleLanguage_def displayLang_def
  LANGUAGE_CHANGE_COOLDOWN_def ls_fire_def ls_callback_run_def Let_def

text \<open>
  C1. A call of \<^verbatim>\<open>toggleLanguage\<close> while \<^verbatim>\<open>isChangingLanguage\<close> is true, or less than
  3000 ms (\<^verbatim>\<open>LANGUAGE_CHANGE_COOLDOWN\<close>) after \<^verbatim>\<open>lastChangeTime\<close>, is a no-op: the whole
  state is unchanged, so the displayed language, \<^verbatim>\<open>isChangingLanguage\<close> and
  \<^verbatim>\<open>lastChangeTime\<close> keep their values and no event is dispatched.
\<close>

theorem toggleLanguage_rejected_noop:
  "isChangingLanguage s \<or> now - lastChangeTime s < LANGUAGE_CHANGE_COOLDOWN \<Longrightarrow>
   toggleLanguage now s = s"
  by (simp add: toggleLanguage_def)

text \<open>
  The hypothesis holds 500 ms after an accepted toggle: the component is still changing
  and the cooldown has not passed.
\<close>

theorem toggleLanguage_rejected_noop_witness:
  "toggleLanguage 5500 (ls_run 1300 ''en'' [Toggle 5000]) = ls_run 1300 ''en'' [Toggle 5000]"
  using toggleLanguage_rejected_noop [of "ls_run 1300 ''en'' [Toggle 5000]" 5500]
  by (simp add: ls_defs)

lemma toggle_accept_eq:
  assumes "\<not> isChangingLanguage s"
    and "\<not> now - lastChangeTime s < LANGUAGE_CHANGE_COOLDOWN"
  shows "toggleLanguage now s =
           s\<lparr>isChangingLanguage := True, lastChangeTime := now,
             dispatched := dispatched s @
               [\<lparr>event_type = ''initiateLanguageChange'',
                 previousLanguage = currentLang s,
                 newLanguage = (if currentLang s = ''en'' then ''es'' else ''en'')\<rparr>],
             currentLang := (if currentLang s = ''en'' then ''es'' else ''en'')\<rparr>"
  using assms by (simp add: toggleLanguage_def Let_def)

text \<open>
  C6. An accepted call of \<^verbatim>\<open>toggleLanguage\<close> (not changing, cooldown passed) on a
  displayed language of \<^verbatim>\<open>en\<close> or \<^verbatim>\<open>es\<close> computes the other of the two as the next
  language, sets \<^verbatim>\<open>isChangingLanguage\<close>, sets \<^verbatim>\<open>lastChangeTime\<close> to now, shows the next
  language at once, and dispatches exactly one event, which carries the previous and the
  next language.
\<close>

theorem toggleLanguage_accepted:
  assumes "\<not> isChangingLanguage s"
    and "\<not> now - lastChangeTime s < LANGUAGE_CHANGE_COOLDOWN"
    and "currentLang s \<in> {''en'', ''es''}"
  shows "\<exists>next. next \<in> {''en'', ''es''} \<and> next \<noteq> currentLang s \<and>
           toggleLanguage now s =
             s\<lparr>isChangingLanguage := True, lastChangeTime := now,
               dispatched := dispatched s @
                 [\<lparr>event_type = ''initiateLanguageChange'',
                   previousLanguage = currentLang s, newLanguage = next\<rparr>],
               currentLang := next\<rparr>"
proof (intro exI conjI)
  let ?next = "if currentLang s = ''en'' then ''es'' else ''en''"
  show "?next \<in> {''en'', ''es''}" by simp
  show "?next \<noteq> currentLang s" using assms(3) by auto
  show "toggleLanguage now s =
          s\<lparr>isChangingLanguage := True, lastChangeTime := now,
            dispatched := dispatched s @
              [\<lparr>event_type = ''initiateLanguageChange'',
                previousLanguage = currentLang s, newLanguage = ?next\<rparr>],
            currentLang := ?next\<rparr>"
    by (rule toggle_accept_eq [OF assms(1,2)])
qed

text \<open>After mount nothing is changing, and 5000 ms exceed the cooldown.\<close>

theorem toggleLanguage_accepted_witness:
  "\<exists>next. next \<in> {''en'', ''es''} \<and> next \<noteq> currentLang (ls_mount 1300 ''en'') \<and>
     toggleLanguage 5000 (ls_mount 1300 ''en'') =
       (ls_mount 1300 ''en'')\<lparr>isChangingLanguage := True, lastChangeTime := 5000,
          dispatched := dispatched (ls_mount 1300 ''en'') @
            [\<lparr>event_type = ''initiateLanguageChange'',
              previousLanguage = currentLang (ls_mount 1300 ''en''), newLanguage = next\<rparr>],
          currentLang := next\<rparr>"
proof -
  have a: "\<not> isChangingLanguage (ls_mount 1300 ''en'')"
    by (simp add: ls_defs)
  have b: "\<not> 5000 - lastChangeTime (ls_mount 1300 ''en'') < LANGUAGE_CHANGE_COOLDOWN"
    by (simp add: ls_defs)
  have c: "currentLang (ls_mount 1300 ''en'') \<in> {''en'', ''es''}"
    by (simp add: ls_defs)
  show ?thesis by (rule toggleLanguage_accepted [OF a b c])
qed

subsection \<open>The synchronisation effect\<close>

lemma commit_runs:
  "syncDeps s \<noteq> Some (language, currentLang s) \<Longrightarrow>
   ls_commit language s =
     (syncEffect language (syncCleanup s))\<lparr>syncDeps := Some (language, currentLang s)\<rparr>"
  by (simp add: ls_commit_def Let_def)

lemma syncEffect_fields:
  "i18nextLng (syncEffect language s) = Some language"
  "syncTimer (syncEffect language s) = Some (ls_nextTimer s)"
  "ls_timers (syncEffect language s) (ls_nextTimer s) = Some (1000, ClearChanging)"
  "isChangingLanguage (syncEffect language s) = isChangingLanguage s"
  by (simp_all add: syncEffect_def ls_setTimeout_def Let_def)

lemma syncCleanup_fields:
  "ls_nextTimer (syncCleanup s) = ls_nextTimer s"
  "isChangingLanguage (syncCleanup s) = isChangingLanguage s"
  by (simp_all add: syncCleanup_def ls_clearTimeout_def split: option.splits)

lemma toggle_isChanging:
  "isChangingLanguage (toggleLanguage now s) =
     (isChangingLanguage s \<or> LANGUAGE_CHANGE_COOLDOWN \<le> now - lastChangeTime s)"
  by (auto simp add: toggleLanguage_def Let_def)

lemma fire_isChanging:
  "isChangingLanguage (ls_fire h s) =
     (isChangingLanguage s \<and> (\<nexists>delay. ls_timers s h = Some (delay, ClearChanging)))"
  by (auto simp add: ls_fire_def ls_callback_run_def ls_clearTimeout_def
      split: option.splits ls_callback.splits)

lemma commit_timers:
  "syncDeps s \<noteq> Some (language, currentLang s) \<Longrightarrow>
   dom (ls_timers (ls_commit language s)) =
     insert (ls_nextTimer s) (dom (ls_timers s) - set_option (syncTimer s))"
  by (auto simp add: ls_commit_def syncEffect_def syncCleanup_def ls_setTimeout_def
      ls_clearTimeout_def Let_def split: option.splits if_splits)

lemma clear_tracked_iff:
  "clear_tracked s \<longleftrightarrow>
     (\<forall>h delay. ls_timers s h = Some (delay, ClearChanging) \<longrightarrow>
        syncTimer s = Some h \<and> delay = 1000)"
  unfolding clear_tracked_def by (cases "syncTimer s") auto

lemma clear_tracked_init: "clear_tracked (ls_init language)"
  by (simp add: clear_tracked_iff ls_init_def)

lemma clear_tracked_visibility:
  "clear_tracked s \<Longrightarrow> clear_tracked (visibilityEffect initialDelay s)"
  by (auto simp add: clear_tracked_iff visibilityEffect_def ls_setTimeout_def
      split: if_splits)

lemma clear_tracked_commit: "clear_tracked s \<Longrightarrow> clear_tracked (ls_commit language s)"
  by (auto simp add: clear_tracked_iff ls_commit_def syncEffect_def syncCleanup_def
      ls_setTimeout_def ls_clearTimeout_def Let_def split: option.splits if_splits)

lemma clear_tracked_toggle: "clear_tracked s \<Longrightarrow> clear_tracked (toggleLanguage now s)"
  by (simp add: clear_tracked_iff toggleLanguage_def Let_def)

lemma fire_timers_kept:
  "ls_timers (ls_fire h s) k = Some e \<Longrightarrow> ls_timers s k = Some e"
  by (auto simp add: ls_fire_def ls_callback_run_def ls_clearTimeout_def
      split: option.splits ls_callback.splits if_splits)

lemma fire_syncTimer: "syncTimer (ls_fire h s) = syncTimer s"
  by (simp add: ls_fire_def ls_callback_run_def ls_clearTimeout_def
      split: option.splits ls_callback.splits)

lemma clear_tracked_fire:
  assumes "clear_tracked s"
  shows "clear_tracked (ls_fire h s)"
  unfolding clear_tracked_iff fire_syncTimer
proof (intro allI impI)
  fix k delay
  assume "ls_timers (ls_fire h s) k = Some (delay, ClearChanging)"
  then have "ls_timers s k = Some (delay, ClearChanging)"
    by (rule fire_timers_kept)
  with assms show "syncTimer s = Some k \<and> delay = 1000"
    by (simp add: clear_tracked_iff)
qed

lemma clear_tracked_step: "clear_tracked s \<Longrightarrow> clear_tracked (ls_step s e)"
  by (cases e) (simp_all add: clear_tracked_commit clear_tracked_toggle clear_tracked_fire)

lemma clear_tracked_foldl: "clear_tracked s \<Longrightarrow> clear_tracked (foldl ls_step s evs)"
  by (induction evs arbitrary: s) (simp_all add: clear_tracked_step)

lemma clear_tracked_run: "clear_tracked (ls_run initialDelay language evs)"
  unfolding ls_run_def ls_mount_def
  by (intro clear_tracked_foldl clear_tracked_commit clear_tracked_visibility
      clear_tracked_init)

text \<open>
  C7, as the specification states it, fails in its last part. The effect depends on
  \<^verbatim>\<open>currentLang\<close> as well as on \<^verbatim>\<open>i18n.language\<close>, so the toggle's own
  \<^verbatim>\<open>setCurrentLang\<close> makes it run. In the run below the external locale is
  \<^verbatim>\<open>en\<close> at mount and at every commit; the toggle at 5000 ms sets
  \<^verbatim>\<open>isChangingLanguage\<close>, the two commits that follow re-run the effect (the first puts
  the displayed language back to \<^verbatim>\<open>en\<close>, which changes \<^verbatim>\<open>currentLang\<close> again), and the
  timer of the last run clears \<^verbatim>\<open>isChangingLanguage\<close>.
\<close>

theorem sync_clear_without_locale_change:
  "isChangingLanguage (ls_run 1300 ''en'' [Toggle 5000]) \<and>
   \<not> isChangingLanguage
       (ls_run 1300 ''en'' [Toggle 5000, Commit ''en'', Commit ''en'', Fire 4])"
  by (simp add: ls_defs)

text \<open>
  C7, amended. Whenever the synchronisation effect runs, which is when the external
  locale value or the component's own \<^verbatim>\<open>currentLang\<close> differs from the value at the
  effect's last run (and at mount), it writes \<^verbatim>\<open>i18n.language\<close> to storage at once,
  cancels the timer of its previous run, and schedules a timer of 1000 ms whose firing
  clears \<^verbatim>\<open>isChangingLanguage\<close>: the timers pending afterwards are the new one and those
  pending before less the one the previous run held. Nothing else clears the flag: a
  commit leaves it as it is, a toggle can only set it, and a timer that fires clears it
  only when it is a timer of this effect. In every state that the component can reach,
  the only timer of this effect that is pending is the one of its latest run, with its
  delay of 1000 ms, so no older timer clears the flag early.
\<close>

theorem sync_effect_settle:
  assumes "syncDeps s \<noteq> Some (language, currentLang s)"
  shows "i18nextLng (ls_commit language s) = Some language \<and>
         syncTimer (ls_commit language s) = Some (ls_nextTimer s) \<and>
         ls_timers (ls_commit language s) (ls_nextTimer s) = Some (1000, ClearChanging) \<and>
         \<not> isChangingLanguage (ls_fire (ls_nextTimer s) (ls_commit language s)) \<and>
         isChangingLanguage (ls_commit language s) = isChangingLanguage s \<and>
         isChangingLanguage (toggleLanguage now s) =
           (isChangingLanguage s \<or> LANGUAGE_CHANGE_COOLDOWN \<le> now - lastChangeTime s) \<and>
         isChangingLanguage (ls_fire h s) =
           (isChangingLanguage s \<and> (\<nexists>delay. ls_timers s h = Some (delay, ClearChanging))) \<and>
         dom (ls_timers (ls_commit language s)) =
           insert (ls_nextTimer s) (dom (ls_timers s) - set_option (syncTimer s)) \<and>
         {(h, delay). ls_timers (ls_run initialDelay language0 evs) h =
                        Some (delay, ClearChanging)}
           \<subseteq> set_option (syncTimer (ls_run initialDelay language0 evs)) \<times> {1000}"
proof -
  let ?s' = "ls_commit language s"
  have t: "ls_timers ?s' (ls_nextTimer s) = Some (1000, ClearChanging)"
    using syncEffect_fields(3) [of language "syncCleanup s"]
    by (simp add: commit_runs [OF assms] syncCleanup_fields)
  have f: "\<not> isChangingLanguage (ls_fire (ls_nextTimer s) ?s')"
    using t by (simp add: fire_isChanging)
  have r: "{(h, delay). ls_timers (ls_run initialDelay language0 evs) h =
                          Some (delay, ClearChanging)}
             \<subseteq> set_option (syncTimer (ls_run initialDelay language0 evs)) \<times> {1000}"
    using clear_tracked_run [of initialDelay language0 evs]
    by (simp only: clear_tracked_def)
  have "i18nextLng ?s' = Some language \<and>
        syncTimer ?s' = Some (ls_nextTimer s) \<and>
        isChangingLanguage ?s' = isChangingLanguage s"
    by (simp add: commit_runs [OF assms] syncEffect_fields syncCleanup_fields)
  with t f r commit_timers [OF assms] show ?thesis
    by (simp only: toggle_isChanging fire_isChanging simp_thms)
qed

text \<open>
  The external locale becomes \<^verbatim>\<open>es\<close> after an accepted toggle: the effect runs, stores
  \<^verbatim>\<open>es\<close>, cancels the timer of the run at mount (handle 2), and its own timer
  (handle 3) clears the flag that the toggle had set.
\<close>

theorem sync_effect_settle_witness:
  "isChangingLanguage (ls_commit ''es'' (ls_run 1300 ''en'' [Toggle 5000])) \<and>
   i18nextLng (ls_commit ''es'' (ls_run 1300 ''en'' [Toggle 5000])) = Some ''es'' \<and>
   ls_timers (ls_commit ''es'' (ls_run 1300 ''en'' [Toggle 5000])) 3 =
     Some (1000, ClearChanging) \<and>
   \<not> isChangingLanguage (ls_fire 3 (ls_commit ''es'' (ls_run 1300 ''en'' [Toggle 5000]))) \<and>
   dom (ls_timers (ls_commit ''es'' (ls_run 1300 ''en'' [Toggle 5000]))) = {1, 3}"
proof -
  let ?s = "ls_run 1300 ''en'' [Toggle 5000]"
  have a: "syncDeps ?s \<noteq> Some (''es'', currentLang ?s)"
    by (simp add: ls_defs)
  have n: "ls_nextTimer ?s = 3" "isChangingLanguage ?s"
    by (simp_all add: ls_defs)
  have d: "insert 3 (dom (ls_timers ?s) - set_option (syncTimer ?s)) = {1, 3}"
    by (auto simp add: ls_defs split: if_splits)
  show ?thesis
    using sync_effect_settle
      [where now = 0 and h = 0 and initialDelay = 1300 and ?language0.0 = "''en''"
         and evs = "[]", OF a]
    by (simp add: n d)
qed

section \<open>Properties of LanguageMorphingTitle\<close>

lemmas lmt_defs =
  lmt_run_def lmt_mount_def lmt_init_def initEffect_def languageEffect_def completion_def
  timerFires_def setTimeout_def clearTimeout_def getTotalAnimationDuration_def
  MIN_ANIMATION_DURATION_def exact_arith_def default_props_def demo_t_def demo_props_def unmount_def Let_def


lemma languageEffect_morph:
  assumes "\<not> isChangingRef s" "previousLanguageRef s \<noteq> language"
    "t (translationKey p) (previousLanguageRef s) \<noteq> t (translationKey p) language"
  shows "languageEffect ar t p language now s =
     s\<lparr>isChangingRef := True, lastChangeTimeRef := now,
       texts := [t (translationKey p) (previousLanguageRef s), t (translationKey p) language],
       shouldMorph := True,
       timers := (case animationTimeoutRef s of None \<Rightarrow> timers s | Some h \<Rightarrow> (timers s)(h := None))
                   (nextTimer s \<mapsto> getTotalAnimationDuration ar p),
       nextTimer := Suc (nextTimer s),
       animationTimeoutRef := Some (nextTimer s),
       previousLanguageRef := language\<rparr>"
  using assms by (simp add: languageEffect_def Let_def setTimeout_def clearTimeout_def split: option.splits)


lemma timerFires_pending:
  "timers s h = Some delay \<Longrightarrow>
   timerFires t p language h s =
     s\<lparr>timers := (timers s)(h := None), shouldMorph := False, isChangingRef := False,
       animationTimeoutRef := None,
       texts := [t (translationKey p) language, t (translationKey p) language]\<rparr>"
  by (simp add: timerFires_def completion_def clearTimeout_def Let_def)

subsection \<open>Timers of a mounted component\<close>

lemma tracked_init: "timer_tracked (lmt_init language)"
  by (simp add: timer_tracked_def lmt_init_def)

lemma tracked_initEffect: "timer_tracked s \<Longrightarrow> timer_tracked (initEffect t p language s)"
  by (simp add: timer_tracked_def initEffect_def Let_def)

lemma tracked_languageEffect:
  "timer_tracked s \<Longrightarrow> timer_tracked (languageEffect ar t p language now s)"
  by (auto simp add: timer_tracked_def languageEffect_def Let_def setTimeout_def clearTimeout_def
      split: option.splits)

lemma tracked_timerFires:
  "timer_tracked s \<Longrightarrow> timer_tracked (timerFires t p language h s)"
  by (auto simp add: timer_tracked_def timerFires_def completion_def clearTimeout_def Let_def
      split: option.splits)

lemma tracked_step: "timer_tracked s \<Longrightarrow> timer_tracked (lmt_step ar t p s e)"
  by (cases e) (simp_all add: tracked_initEffect tracked_languageEffect tracked_timerFires)

lemma tracked_foldl: "timer_tracked s \<Longrightarrow> timer_tracked (foldl (lmt_step ar t p) s evs)"
  by (induction evs arbitrary: s) (simp_all add: tracked_step)

lemma tracked_run: "timer_tracked (lmt_run ar t p language now evs)"
  unfolding lmt_run_def lmt_mount_def
  by (intro tracked_foldl tracked_step tracked_init)

lemma tracked_unmount_empty: "timer_tracked s \<Longrightarrow> timers (unmount s) = Map.empty"
proof (cases "animationTimeoutRef s")
  case None
  assume "timer_tracked s"
  with None show ?thesis by (simp add: timer_tracked_def unmount_def)
next
  case (Some h)
  assume "timer_tracked s"
  with Some have "dom (timers s) = {h}" by (simp add: timer_tracked_def)
  then have "dom ((timers s)(h := None)) = {}" by simp
  then have "(timers s)(h := None) = Map.empty" by (simp only: dom_eq_empty_conv)
  with Some show ?thesis by (simp add: unmount_def clearTimeout_def)
qed

lemma fire_all_no_timers: "timers s = Map.empty \<Longrightarrow> fire_all t p fs s = s"
  unfolding fire_all_def
  by (induction fs) (simp_all add: timerFires_def split: prod.splits)

lemma unmount_fields:
  "shouldMorph (unmount s) = shouldMorph s"
  "texts (unmount s) = texts s"
  "isChangingRef (unmount s) = isChangingRef s"
  "lastChangeTimeRef (unmount s) = lastChangeTimeRef s"
  "previousLanguageRef (unmount s) = previousLanguageRef s"
  by (simp_all add: unmount_def clearTimeout_def split: option.splits)

lemma languageEffect_timers:
  "timers (languageEffect ar t p language now s) = timers s \<or>
   dom (timers (languageEffect ar t p language now s)) =
     insert (nextTimer s) (dom (timers s) - set_option (animationTimeoutRef s))"
  by (auto simp add: languageEffect_def Let_def setTimeout_def clearTimeout_def
      split: option.splits)








subsection \<open>The language-change effect\<close>

text \<open>
  C5. At most one transition is in flight: when the language-change effect runs while
  the in-flight guard \<^verbatim>\<open>isChangingRef\<close> is true, it returns at once and leaves the whole
  state as it is (no new display pair, no timer, no update of the last-seen locale).
\<close>

theorem languageEffect_guarded_noop:
  "isChangingRef s \<Longrightarrow> languageEffect ar t p language now s = s"
  by (simp add: languageEffect_def)

text \<open>
  The guard is set while the morph from \<^verbatim>\<open>en\<close> to \<^verbatim>\<open>es\<close> is running; a change back
  to \<^verbatim>\<open>en\<close> 500 ms later is ignored.
\<close>

theorem languageEffect_guarded_noop_witness:
  "languageEffect exact_arith demo_t demo_props ''en'' 10500 (lmt_run exact_arith demo_t demo_props ''en'' 1000 [Render ''es'' 10000])
   = lmt_run exact_arith demo_t demo_props ''en'' 1000 [Render ''es'' 10000]"
proof -
  have "isChangingRef (lmt_run exact_arith demo_t demo_props ''en'' 1000 [Render ''es'' 10000])"
    by (simp add: lmt_defs)
  then show ?thesis by (rule languageEffect_guarded_noop)
qed




text \<open>
  C3. An accepted language change (guard clear, locale differs from the last-seen one)
  whose old and new texts differ sets the display pair to the old and the new text,
  enters Morphing, sets the guard, and schedules a completion timer of exactly
  \<^verbatim>\<open>Math.max((morphTime + cooldownTime) * 1000 + 500, 2500)\<close> ms, in whatever arithmetic
  the numbers have (that of doubles in the source), held by \<^verbatim>\<open>animationTimeoutRef\<close>.
  When that timer fires, with whatever locale is then current,
  the component leaves Morphing, both slots of the display pair become the text of that
  locale, the guard is cleared, and the timer reference is cleared.
\<close>

theorem accepted_change_morphs_then_completes:
  assumes "\<not> isChangingRef s"
    and "previousLanguageRef s \<noteq> language"
    and "t (translationKey p) (previousLanguageRef s) \<noteq> t (translationKey p) language"
  shows "texts (languageEffect ar t p language now s) =
           [t (translationKey p) (previousLanguageRef s), t (translationKey p) language] \<and>
         shouldMorph (languageEffect ar t p language now s) \<and>
         isChangingRef (languageEffect ar t p language now s) \<and>
         animationTimeoutRef (languageEffect ar t p language now s) = Some (nextTimer s) \<and>
         timers (languageEffect ar t p language now s) (nextTimer s) =
           Some (js_max ar
                  (js_add ar
                    (js_mul ar (js_add ar (morphTime p) (cooldownTime p)) (js_num ar 1000))
                    (js_num ar 500))
                  (js_num ar 2500)) \<and>
         \<not> shouldMorph
             (timerFires t p current (nextTimer s) (languageEffect ar t p language now s)) \<and>
         texts (timerFires t p current (nextTimer s) (languageEffect ar t p language now s)) =
           [t (translationKey p) current, t (translationKey p) current] \<and>
         \<not> isChangingRef
             (timerFires t p current (nextTimer s) (languageEffect ar t p language now s)) \<and>
         animationTimeoutRef
           (timerFires t p current (nextTimer s) (languageEffect ar t p language now s)) = None \<and>
         timers (timerFires t p current (nextTimer s) (languageEffect ar t p language now s))
           (nextTimer s) = None"
proof -
  let ?s' = "languageEffect ar t p language now s"
  have pending: "timers ?s' (nextTimer s) = Some (getTotalAnimationDuration ar p)"
    by (simp add: languageEffect_morph [where ar = ar and t = t and p = p, OF assms])
  have started:
    "texts ?s' = [t (translationKey p) (previousLanguageRef s), t (translationKey p) language]"
    "shouldMorph ?s'" "isChangingRef ?s'" "animationTimeoutRef ?s' = Some (nextTimer s)"
    by (simp_all add: languageEffect_morph [where ar = ar and t = t and p = p, OF assms])
  have fired:
    "\<not> shouldMorph (timerFires t p current (nextTimer s) ?s')"
    "texts (timerFires t p current (nextTimer s) ?s') =
       [t (translationKey p) current, t (translationKey p) current]"
    "\<not> isChangingRef (timerFires t p current (nextTimer s) ?s')"
    "animationTimeoutRef (timerFires t p current (nextTimer s) ?s') = None"
    "timers (timerFires t p current (nextTimer s) ?s') (nextTimer s) = None"
    by (simp_all add: timerFires_pending [OF pending])
  from pending have
    "timers ?s' (nextTimer s) =
       Some (js_max ar
              (js_add ar
                (js_mul ar (js_add ar (morphTime p) (cooldownTime p)) (js_num ar 1000))
                (js_num ar 500))
              (js_num ar 2500))"
    by (simp add: getTotalAnimationDuration_def MIN_ANIMATION_DURATION_def Let_def)
  with started fired show ?thesis by simp
qed

text \<open>
  With the default properties, on which the arithmetic of the source is exact, the timer
  is 2500 ms: \<^verbatim>\<open>Hello\<close> morphs to \<^verbatim>\<open>Hola\<close> and both slots read \<^verbatim>\<open>Hola\<close> once the
  timer has fired.
\<close>

theorem accepted_change_morphs_then_completes_witness:
  "texts (lmt_run exact_arith demo_t demo_props ''en'' 1000 [Render ''es'' 10000]) = [''Hello'', ''Hola''] \<and>
   shouldMorph (lmt_run exact_arith demo_t demo_props ''en'' 1000 [Render ''es'' 10000]) \<and>
   timers (lmt_run exact_arith demo_t demo_props ''en'' 1000 [Render ''es'' 10000]) 1 = Some 2500 \<and>
   texts (lmt_run exact_arith demo_t demo_props ''en'' 1000 [Render ''es'' 10000, TimerFires 1 ''es'']) =
     [''Hola'', ''Hola''] \<and>
   \<not> isChangingRef
       (lmt_run exact_arith demo_t demo_props ''en'' 1000 [Render ''es'' 10000, TimerFires 1 ''es''])"
proof -
  let ?s = "lmt_mount exact_arith demo_t demo_props ''en'' 1000"
  have s: "?s = \<lparr>shouldMorph = False, texts = [''Hello'', ''Hello''],
      previousLanguageRef = ''en'', animationTimeoutRef = None, initializedRef = True,
      isChangingRef = False, lastChangeTimeRef = 0, timers = Map.empty, nextTimer = 1\<rparr>"
    by (simp add: lmt_defs)
  have a: "\<not> isChangingRef ?s"
    by (simp add: s)
  have b: "previousLanguageRef ?s \<noteq> ''es''"
    by (simp add: s)
  have pl: "previousLanguageRef ?s = ''en''"
    by (simp add: s)
  have c: "demo_t (translationKey demo_props) (previousLanguageRef ?s) \<noteq>
           demo_t (translationKey demo_props) ''es''"
    unfolding pl by (simp add: demo_t_def demo_props_def default_props_def)
  have r1: "lmt_run exact_arith demo_t demo_props ''en'' 1000 [Render ''es'' 10000] =
            languageEffect exact_arith demo_t demo_props ''es'' 10000 ?s"
    by (simp add: lmt_run_def s initEffect_def)
  have r2: "lmt_run exact_arith demo_t demo_props ''en'' 1000 [Render ''es'' 10000, TimerFires 1 ''es''] =
            timerFires demo_t demo_props ''es'' 1 (languageEffect exact_arith demo_t demo_props ''es'' 10000 ?s)"
    by (simp add: lmt_run_def s initEffect_def)
  have n: "nextTimer ?s = 1"
    by (simp add: s)
  have v: "demo_t (translationKey demo_props) ''es'' = ''Hola''"
    "demo_t (translationKey demo_props) (previousLanguageRef ?s) = ''Hello''"
    "js_max exact_arith
       (js_add exact_arith
         (js_mul exact_arith
           (js_add exact_arith (morphTime demo_props) (cooldownTime demo_props))
           (js_num exact_arith 1000))
         (js_num exact_arith 500))
       (js_num exact_arith 2500) = 2500"
    unfolding pl by (simp_all add: demo_t_def demo_props_def default_props_def exact_arith_def)
  show ?thesis
    using accepted_change_morphs_then_completes
      [where ar = exact_arith and t = demo_t and p = demo_props and now = 10000 and current = "''es''", OF a b c]
    unfolding r1 r2 n v by blast
qed




subsection \<open>Timers and unmount\<close>

text \<open>
  C9. In every state that a component can reach, the pending timers are exactly the one
  that \<^verbatim>\<open>animationTimeoutRef\<close> holds, so at most one completion callback is pending. The
  language-change effect, from any state, either leaves the timer table alone or leaves
  in it the one new timer and what was there before less the timer that the reference
  held: the prior timer is cancelled before the new one is scheduled.
\<close>

theorem one_pending_completion:
  "dom (timers (lmt_run ar t p language now evs)) =
     set_option (animationTimeoutRef (lmt_run ar t p language now evs)) \<and>
   card (dom (timers (lmt_run ar t p language now evs))) \<le> 1 \<and>
   (timers (languageEffect ar t p language' now' s) = timers s \<or>
    dom (timers (languageEffect ar t p language' now' s)) =
      insert (nextTimer s) (dom (timers s) - set_option (animationTimeoutRef s)))"
proof -
  let ?s = "lmt_run ar t p language now evs"
  have d: "dom (timers ?s) = set_option (animationTimeoutRef ?s)"
    using tracked_run [of ar t p language now evs] by (simp add: timer_tracked_def)
  have "card (set_option (animationTimeoutRef ?s)) \<le> 1"
    by (cases "animationTimeoutRef ?s") simp_all
  with d show ?thesis
    using languageEffect_timers [of ar t p language' now' s] by simp
qed

text \<open>
  C8. Unmounting cancels the pending completion timer. After the unmount of a component
  in any state it can reach, no timer is pending and the timer reference is cleared, so
  whatever timers try to fire afterwards, the completion callback does not run and the
  state stays as the unmount left it; the unmount itself leaves \<^verbatim>\<open>shouldMorph\<close>,
  \<^verbatim>\<open>texts\<close> and the guard refs as they were.
\<close>

theorem unmount_cancels_completion:
  "timers (unmount (lmt_run ar t p language now evs)) = Map.empty \<and>
   animationTimeoutRef (unmount (lmt_run ar t p language now evs)) = None \<and>
   fire_all t p fs (unmount (lmt_run ar t p language now evs)) =
     unmount (lmt_run ar t p language now evs) \<and>
   shouldMorph (unmount (lmt_run ar t p language now evs)) =
     shouldMorph (lmt_run ar t p language now evs) \<and>
   texts (unmount (lmt_run ar t p language now evs)) = texts (lmt_run ar t p language now evs) \<and>
   isChangingRef (unmount (lmt_run ar t p language now evs)) =
     isChangingRef (lmt_run ar t p language now evs) \<and>
   lastChangeTimeRef (unmount (lmt_run ar t p language now evs)) =
     lastChangeTimeRef (lmt_run ar t p language now evs) \<and>
   previousLanguageRef (unmount (lmt_run ar t p language now evs)) =
     previousLanguageRef (lmt_run ar t p language now evs)"
proof -
  let ?s = "lmt_run ar t p language now evs"
  have e: "timers (unmount ?s) = Map.empty"
    by (rule tracked_unmount_empty [OF tracked_run])
  have r: "animationTimeoutRef (unmount ?s) = None"
    by (simp add: unmount_def split: option.splits)
  show ?thesis
    using e r fire_all_no_timers [OF e] by (simp add: unmount_fields)
qed

section \<open>PageTransition\<close>

text \<open>
  \<^verbatim>\<open>src/components/PageTransition/PageTransition.tsx\<close> holds no state and no logic of its
  own: it renders its children in a container keyed by \<^verbatim>\<open>location.pathname\<close> inside the
  animation library's presence wrapper in \<^verbatim>\<open>wait\<close> mode. The order of exit and enter
  animations is the library's doing, on the rendering clock, and is not part of this
  development.
\<close>

end
